theory Spec2Isabelle
  imports Complex_Main "HOL-Library.Product_Lexorder"
begin

section \<open>Documents of the forum backend\<close>

text \<open>
  The controller \<^verbatim>\<open>back/controllers/forumController.js\<close> works on three collections of a
  document database: forum posts (with embedded replies and like lists), courses and
  notifications. Object ids are compared through their string form everywhere in the
  controller (\<^verbatim>\<open>a.toString() !== b.toString()\<close>), so an id is a string here.
\<close>

type_synonym objectId = string

record attachment =
  filename :: string
  url :: string

record user =
  uid :: objectId
  username :: string
  role :: string

record reply =
  rid :: objectId
  rauthor :: objectId
  rcontent :: string
  rattachments :: "attachment list"
  rlikes :: "objectId list"
  rupdatedAt :: nat

record post =
  pid :: objectId
  courseId :: objectId
  author :: objectId
  title :: string
  content :: string
  category :: string
  tags :: "string list"
  attachments :: "attachment list"
  likes :: "objectId list"
  replies :: "reply list"
  isPinned :: bool
  isAnnouncement :: bool
  createdAt :: nat

record course =
  cid :: objectId
  ctitle :: string
  instructor :: objectId
  enrolledStudents :: "objectId list"

record notification =
  userId :: objectId
  message :: string
  ntype :: string
  isRead :: bool
  ncreatedAt :: nat

record db =
  posts :: "post list"
  courses :: "course list"
  notifications :: "notification list"

text \<open>
  Errors are values. \<open>HttpError\<close> is what \<^verbatim>\<open>createError(status, message)\<close> builds and the
  handler passes to \<^verbatim>\<open>next\<close>; the other constructors are the exceptions that the
  handler's \<^verbatim>\<open>catch\<close> block forwards to \<^verbatim>\<open>next(error)\<close>: reading a property of
  \<^verbatim>\<open>null\<close>, a document that fails schema validation, and a database call that rejects.
\<close>

datatype error =
    HttpError nat string
  | TypeError string
  | ValidationError string
  | DbError string

fun status :: "error \<Rightarrow> nat option" where
  "status (HttpError s m) = Some s"
| "status (TypeError m) = None"
| "status (ValidationError m) = None"
| "status (DbError m) = None"

fun errStatus :: "error + 'a \<Rightarrow> nat option" where
  "errStatus (Inl err) = status err"
| "errStatus (Inr v) = None"

text \<open>
  What a request cannot determine comes from the environment: the clock
  (\<^verbatim>\<open>Date.now()\<close>), the id the driver gives a new document, and whether the database
  rejects a write. The schema of forum posts is not part of the sources at hand, so a
  post that fails its validation is one more reason for which the environment rejects
  the write. Reads are lookups in the state.
\<close>

datatype dbop =
    OpForumPostCreate
  | OpForumPostUpdate
  | OpPostSave
  | OpPostRemove
  | OpNotificationSave
  | OpNotificationInsertMany

record env =
  now :: nat
  freshId :: objectId
  rejects :: "dbop \<Rightarrow> bool"

section \<open>Strings\<close>

text \<open>
  \<^verbatim>\<open>toLowerCase\<close>, on the letters that matter for a comparison with an ASCII word: no
  character outside \<open>A\<close> to \<open>Z\<close> has a letter of \<open>a\<close> to \<open>z\<close> as its lower case except
  the Kelvin sign, whose lower case \<open>k\<close> does not occur in the words compared here.
\<close>

definition lowerChar :: "char \<Rightarrow> char" where
  "lowerChar c =
     (case map_of (zip ''ABCDEFGHIJKLMNOPQRSTUVWXYZ'' ''abcdefghijklmnopqrstuvwxyz'') c of
        Some l \<Rightarrow> l
      | None \<Rightarrow> c)"

definition toLowerCase :: "string \<Rightarrow> string" where
  "toLowerCase s = map lowerChar s"

definition dquote :: string where
  "dquote = [CHR 0x22]"

section \<open>Collection operations\<close>

fun updateFirst :: "('a \<Rightarrow> bool) \<Rightarrow> ('a \<Rightarrow> 'a) \<Rightarrow> 'a list \<Rightarrow> 'a list" where
  "updateFirst P f [] = []"
| "updateFirst P f (x # xs) = (if P x then f x # xs else x # updateFirst P f xs)"

fun removeFirst :: "('a \<Rightarrow> bool) \<Rightarrow> 'a list \<Rightarrow> 'a list" where
  "removeFirst P [] = []"
| "removeFirst P (x # xs) = (if P x then xs else x # removeFirst P xs)"

definition Course_findById :: "db \<Rightarrow> objectId \<Rightarrow> course option" where
  "Course_findById d i = find (\<lambda>c. cid c = i) (courses d)"

definition ForumPost_findById :: "db \<Rightarrow> objectId \<Rightarrow> post option" where
  "ForumPost_findById d i = find (\<lambda>p. pid p = i) (posts d)"

definition ForumPost_create :: "env \<Rightarrow> post \<Rightarrow> db \<Rightarrow> error + db" where
  "ForumPost_create e p d =
     (if rejects e OpForumPostCreate then Inl (DbError ''ForumPost.create rejected'')
      else Inr (d\<lparr>posts := posts d @ [p]\<rparr>))"

definition post_save :: "env \<Rightarrow> post \<Rightarrow> db \<Rightarrow> error + db" where
  "post_save e p d =
     (if rejects e OpPostSave then Inl (DbError ''post.save rejected'')
      else Inr (d\<lparr>posts := updateFirst (\<lambda>q. pid q = pid p) (\<lambda>q. p) (posts d)\<rparr>))"

definition post_remove :: "env \<Rightarrow> post \<Rightarrow> db \<Rightarrow> error + db" where
  "post_remove e p d =
     (if rejects e OpPostRemove then Inl (DbError ''post.remove rejected'')
      else Inr (d\<lparr>posts := removeFirst (\<lambda>q. pid q = pid p) (posts d)\<rparr>))"

text \<open>
  The notification schema: \<^verbatim>\<open>message\<close> is a required string (an empty one fails),
  \<^verbatim>\<open>type\<close> is required and one of the enumerated values, \<^verbatim>\<open>isRead\<close> defaults to false.
\<close>

definition notificationTypes :: "string list" where
  "notificationTypes =
     [''Password Reset'', ''Email Verification'', ''Login Alert'',
      ''Assignment Due'', ''New Material'', ''Announcement'', ''Welcome'',
      ''Course Enrollment'', ''Assignment Graded'', ''Forum Reply'', ''Course Deletion'',
      ''Assignment Submitted'', ''New Course'',
      ''New Submission'', ''Course Created'', ''Student Enrolled'', ''Annnouncement Posted'',
      ''Course Updated'', ''Course Deleted'', ''Forum Post'']"

definition validNotification :: "notification \<Rightarrow> bool" where
  "validNotification n = (message n \<noteq> [] \<and> ntype n \<in> set notificationTypes)"

definition Notification_save :: "env \<Rightarrow> notification \<Rightarrow> db \<Rightarrow> error + db" where
  "Notification_save e n d =
     (if \<not> validNotification n then Inl (ValidationError ''Notification validation failed'')
      else if rejects e OpNotificationSave then Inl (DbError ''notification.save rejected'')
      else Inr (d\<lparr>notifications := notifications d @ [n]\<rparr>))"

definition Notification_insertMany :: "env \<Rightarrow> notification list \<Rightarrow> db \<Rightarrow> error + db" where
  "Notification_insertMany e ns d =
     (if \<not> list_all validNotification ns
        then Inl (ValidationError ''Notification validation failed'')
      else if rejects e OpNotificationInsertMany
        then Inl (DbError ''Notification.insertMany rejected'')
      else Inr (d\<lparr>notifications := notifications d @ ns\<rparr>))"

section \<open>createForumPost\<close>

record create_body =
  b_courseId :: objectId
  b_title :: string
  b_content :: string
  b_category :: string
  b_tags :: "string list"
  b_attachments :: "attachment list option"

text \<open>
  \<^verbatim>\<open>req.user.role && req.user.role.toLowerCase() === 'instructor'\<close>; a user without a role
  has the empty string here, which is as falsy as \<^verbatim>\<open>undefined\<close>.
\<close>

definition isInstructorRole :: "user \<Rightarrow> bool" where
  "isInstructorRole u = (role u \<noteq> [] \<and> toLowerCase (role u) = ''instructor'')"

definition forumPostNotification :: "env \<Rightarrow> user \<Rightarrow> course \<Rightarrow> string \<Rightarrow> notification" where
  "forumPostNotification e u c t =
     \<lparr>userId = instructor c,
      message = ''New post in '' @ ctitle c @ '' by '' @ username u @ '': '' @ dquote @ t @ dquote,
      ntype = ''Forum Post'',
      isRead = False,
      ncreatedAt = now e\<rparr>"

text \<open>
  Modelled from the spec: the forum post schema (\<^verbatim>\<open>models/forumModel\<close>) is not among the
  sources; a created post starts with the embedded \<open>likes\<close> list and \<open>replies\<close> empty, not
  pinned, and with the creation time as its timestamp.
\<close>

definition newForumPost :: "env \<Rightarrow> user \<Rightarrow> create_body \<Rightarrow> post" where
  "newForumPost e u b =
     \<lparr>pid = freshId e,
      courseId = b_courseId b,
      author = uid u,
      title = b_title b,
      content = b_content b,
      category = b_category b,
      tags = b_tags b,
      attachments = (case b_attachments b of None \<Rightarrow> [] | Some as \<Rightarrow> as),
      likes = [],
      replies = [],
      isPinned = False,
      isAnnouncement = (b_category b = ''Announcement''),
      createdAt = now e\<rparr>"

text \<open>Lines 29 to 54 of the handler: the post is created, then the instructor is notified.\<close>

definition createForumPost_store ::
  "env \<Rightarrow> user \<Rightarrow> create_body \<Rightarrow> course \<Rightarrow> db \<Rightarrow> (error + post) \<times> db" where
  "createForumPost_store e u b c d =
     (case ForumPost_create e (newForumPost e u b) d of
        Inl err \<Rightarrow> (Inl err, d)
      | Inr d1 \<Rightarrow>
          if instructor c \<noteq> uid u then
            (case Notification_save e (forumPostNotification e u c (b_title b)) d1 of
               Inl err \<Rightarrow> (Inl err, d1)
             | Inr d2 \<Rightarrow> (Inr (newForumPost e u b), d2))
          else (Inr (newForumPost e u b), d1))"

definition createForumPost :: "env \<Rightarrow> user \<Rightarrow> create_body \<Rightarrow> db \<Rightarrow> (error + post) \<times> db" where
  "createForumPost e u b d =
     (case Course_findById d (b_courseId b) of
        None \<Rightarrow> (Inl (HttpError 404 ''Course not found''), d)
      | Some c \<Rightarrow>
          if isInstructorRole u then
            (if b_category b \<noteq> ''Announcement''
               then (Inl (HttpError 400 ''Instructors can only create announcements. To answer questions, reply to a student post.''), d)
             else createForumPost_store e u b c d)
          else
            (if b_category b = ''Announcement''
               then (Inl (HttpError 400 ''Only instructors can create announcements.''), d)
             else createForumPost_store e u b c d))"

section \<open>Reading and editing one post\<close>

definition hasCourseAccess :: "course \<Rightarrow> user \<Rightarrow> bool" where
  "hasCourseAccess c u =
     (list_ex (\<lambda>student. student = uid u) (enrolledStudents c) \<or> instructor c = uid u)"

text \<open>
  \<^verbatim>\<open>getPostById\<close>, \<^verbatim>\<open>addReply\<close> and \<^verbatim>\<open>deletePost\<close> look the course of the post up and read
  its fields with no test of the result; on \<^verbatim>\<open>null\<close> the read throws. In \<^verbatim>\<open>deletePost\<close>
  the course is read only by the second operand of \<^verbatim>\<open>&&\<close>, that is, only when the
  requester is not the author.
\<close>

definition getPostById :: "user \<Rightarrow> objectId \<Rightarrow> db \<Rightarrow> error + post" where
  "getPostById u postId d =
     (case ForumPost_findById d postId of
        None \<Rightarrow> Inl (HttpError 404 ''Post not found'')
      | Some p \<Rightarrow>
          (case Course_findById d (courseId p) of
             None \<Rightarrow> Inl (TypeError ''Cannot read properties of null (reading enrolledStudents)'')
           | Some c \<Rightarrow>
               if \<not> hasCourseAccess c u
                 then Inl (HttpError 403 ''You do not have access to this post'')
               else Inr p))"





definition deletePost :: "env \<Rightarrow> user \<Rightarrow> objectId \<Rightarrow> db \<Rightarrow> (error + string) \<times> db" where
  "deletePost e u postId d =
     (case ForumPost_findById d postId of
        None \<Rightarrow> (Inl (HttpError 404 ''Post not found''), d)
      | Some p \<Rightarrow>
          (let remove = (case post_remove e p d of
                           Inl err \<Rightarrow> (Inl err, d)
                         | Inr d1 \<Rightarrow> (Inr ''Post deleted successfully'', d1))
           in if author p \<noteq> uid u then
                (case Course_findById d (courseId p) of
                   None \<Rightarrow> (Inl (TypeError ''Cannot read properties of null (reading instructor)''), d)
                 | Some c \<Rightarrow>
                     if instructor c \<noteq> uid u
                       then (Inl (HttpError 403 ''You are not authorized to delete this post''), d)
                     else remove)
              else remove))"

section \<open>Replies\<close>

record reply_body =
  rb_content :: string
  rb_attachments :: "attachment list option"

definition forumReplyNotification :: "env \<Rightarrow> user \<Rightarrow> course \<Rightarrow> post \<Rightarrow> notification" where
  "forumReplyNotification e u c p =
     \<lparr>userId = author p,
      message = ''You have a new reply on your post '' @ dquote @ title p @ '' from ''
                  @ username u @ '' in '' @ ctitle c @ dquote,
      ntype = ''Forum Reply'',
      isRead = False,
      ncreatedAt = now e\<rparr>"

text \<open>
  Modelled from the spec: the reply sub-document of the forum post schema is not among the
  sources; a pushed reply gets a fresh id, an empty \<open>likes\<close> list and the current time.
\<close>

definition newReply :: "env \<Rightarrow> user \<Rightarrow> reply_body \<Rightarrow> reply" where
  "newReply e u b =
     \<lparr>rid = freshId e,
      rauthor = uid u,
      rcontent = rb_content b,
      rattachments = (case rb_attachments b of None \<Rightarrow> [] | Some as \<Rightarrow> as),
      rlikes = [],
      rupdatedAt = now e\<rparr>"

definition lastReply :: "post \<Rightarrow> reply option" where
  "lastReply p = (if replies p = [] then None else Some (last (replies p)))"

definition addReply ::
  "env \<Rightarrow> user \<Rightarrow> objectId \<Rightarrow> reply_body \<Rightarrow> db \<Rightarrow> (error + reply option) \<times> db" where
  "addReply e u postId b d =
     (case ForumPost_findById d postId of
        None \<Rightarrow> (Inl (HttpError 404 ''Post not found''), d)
      | Some p \<Rightarrow>
          (case Course_findById d (courseId p) of
             None \<Rightarrow> (Inl (TypeError ''Cannot read properties of null (reading enrolledStudents)''), d)
           | Some c \<Rightarrow>
               if \<not> hasCourseAccess c u
                 then (Inl (HttpError 403 ''You are not authorized to reply to this post''), d)
               else
                 (case post_save e (p\<lparr>replies := replies p @ [newReply e u b]\<rparr>) d of
                    Inl err \<Rightarrow> (Inl err, d)
                  | Inr d1 \<Rightarrow>
                      (case ForumPost_findById d1 (pid p) of
                         None \<Rightarrow> (Inl (TypeError ''Cannot read properties of null (reading replies)''), d1)
                       | Some populatedPost \<Rightarrow>
                           (case Notification_save e (forumReplyNotification e u c p) d1 of
                              Inl err \<Rightarrow> (Inl err, d1)
                            | Inr d2 \<Rightarrow> (Inr (lastReply populatedPost), d2))))))"



section \<open>Likes\<close>

fun indexOf :: "'a list \<Rightarrow> 'a \<Rightarrow> int" where
  "indexOf [] x = - 1"
| "indexOf (y # ys) x =
     (if y = x then 0 else (let i = indexOf ys x in if i = - 1 then - 1 else i + 1))"

definition splice1 :: "int \<Rightarrow> 'a list \<Rightarrow> 'a list" where
  "splice1 i xs = take (nat i) xs @ drop (nat i + 1) xs"

definition toggleLike :: "objectId \<Rightarrow> objectId list \<Rightarrow> objectId list" where
  "toggleLike i ls =
     (let likeIndex = indexOf ls i
      in if likeIndex = - 1 then ls @ [i] else splice1 likeIndex ls)"

record like_response =
  lr_likes :: nat
  lr_isLiked :: bool

definition toggleLikePost ::
  "env \<Rightarrow> user \<Rightarrow> objectId \<Rightarrow> db \<Rightarrow> (error + like_response) \<times> db" where
  "toggleLikePost e u postId d =
     (case ForumPost_findById d postId of
        None \<Rightarrow> (Inl (HttpError 404 ''Post not found''), d)
      | Some p \<Rightarrow>
          (case post_save e (p\<lparr>likes := toggleLike (uid u) (likes p)\<rparr>) d of
             Inl err \<Rightarrow> (Inl err, d)
           | Inr d1 \<Rightarrow>
               (Inr \<lparr>lr_likes = length (toggleLike (uid u) (likes p)),
                     lr_isLiked = (indexOf (likes p) (uid u) = - 1)\<rparr>, d1)))"

definition toggleLikeReply ::
  "env \<Rightarrow> user \<Rightarrow> objectId \<Rightarrow> objectId \<Rightarrow> db \<Rightarrow> (error + like_response) \<times> db" where
  "toggleLikeReply e u postId replyId d =
     (case ForumPost_findById d postId of
        None \<Rightarrow> (Inl (HttpError 404 ''Post not found''), d)
      | Some p \<Rightarrow>
          (case find (\<lambda>r. rid r = replyId) (replies p) of
             None \<Rightarrow> (Inl (HttpError 404 ''Reply not found''), d)
           | Some r \<Rightarrow>
               (case post_save e
                       (p\<lparr>replies := updateFirst (\<lambda>r. rid r = replyId)
                                       (\<lambda>r. r\<lparr>rlikes := toggleLike (uid u) (rlikes r)\<rparr>) (replies p)\<rparr>) d of
                  Inl err \<Rightarrow> (Inl err, d)
                | Inr d1 \<Rightarrow>
                    (Inr \<lparr>lr_likes = length (toggleLike (uid u) (rlikes r)),
                          lr_isLiked = (indexOf (rlikes r) (uid u) = - 1)\<rparr>, d1))))"

text \<open>What the collection holds as the likes of a post, and of a reply of a post.\<close>

definition postLikes :: "db \<Rightarrow> objectId \<Rightarrow> objectId list option" where
  "postLikes d postId = map_option likes (ForumPost_findById d postId)"

definition replyLikes :: "db \<Rightarrow> objectId \<Rightarrow> objectId \<Rightarrow> objectId list option" where
  "replyLikes d postId replyId =
     (case ForumPost_findById d postId of
        None \<Rightarrow> None
      | Some p \<Rightarrow> map_option rlikes (find (\<lambda>r. rid r = replyId) (replies p)))"

section \<open>Queries, paging and search\<close>

text \<open>
  The three list handlers build a query object and pass it to \<^verbatim>\<open>find\<close> and to
  \<^verbatim>\<open>countDocuments\<close>. A query is a conjunction of conditions on fields: equality,
  \<^verbatim>\<open>$regex\<close> with option \<^verbatim>\<open>i\<close>, and \<^verbatim>\<open>$or\<close> of conditions. The documents that
  satisfy the query are its match set (\<open>matchingPosts\<close>). The regular-expression
  engine belongs to the database; it is a parameter here, which either compiles a pattern
  to a case-insensitive matcher on strings or refuses it.
\<close>

datatype field = FTitle | FContent | FCategory | FCourseId | FAuthor


























section \<open>createAnnouncement\<close>

record announcement_body =
  ab_courseId :: objectId
  ab_title :: string
  ab_content :: string
  ab_attachments :: "attachment list option"

definition studentAnnouncementNotification ::
  "env \<Rightarrow> course \<Rightarrow> string \<Rightarrow> objectId \<Rightarrow> notification" where
  "studentAnnouncementNotification e c t student =
     \<lparr>userId = student,
      message = ''New announcement in '' @ ctitle c @ '': '' @ dquote @ t @ dquote,
      ntype = ''Announcement'',
      isRead = False,
      ncreatedAt = now e\<rparr>"

definition instructorAnnouncementNotification :: "env \<Rightarrow> course \<Rightarrow> string \<Rightarrow> notification" where
  "instructorAnnouncementNotification e c t =
     \<lparr>userId = instructor c,
      message = ''You created a new announcement in '' @ ctitle c @ '': '' @ dquote @ t @ dquote,
      ntype = ''Announcement'',
      isRead = False,
      ncreatedAt = now e\<rparr>"

text \<open>
  Modelled from the spec: the forum post schema is not among the sources; the handler
  leaves \<open>isAnnouncement\<close> and \<open>tags\<close> to the schema, taken here as false and empty.
\<close>

definition newAnnouncement :: "env \<Rightarrow> user \<Rightarrow> announcement_body \<Rightarrow> post" where
  "newAnnouncement e u b =
     \<lparr>pid = freshId e,
      courseId = ab_courseId b,
      author = uid u,
      title = ab_title b,
      content = ab_content b,
      category = ''Announcement'',
      tags = [],
      attachments = (case ab_attachments b of None \<Rightarrow> [] | Some as \<Rightarrow> as),
      likes = [],
      replies = [],
      isPinned = False,
      isAnnouncement = False,
      createdAt = now e\<rparr>"

definition notifyStudents :: "env \<Rightarrow> course \<Rightarrow> string \<Rightarrow> db \<Rightarrow> error + db" where
  "notifyStudents e c t d =
     (if 0 < length (enrolledStudents c)
        then Notification_insertMany e
               (map (studentAnnouncementNotification e c t) (enrolledStudents c)) d
      else Inr d)"

definition createAnnouncement ::
  "env \<Rightarrow> user \<Rightarrow> announcement_body \<Rightarrow> db \<Rightarrow> (error + post) \<times> db" where
  "createAnnouncement e u b d =
     (case Course_findById d (ab_courseId b) of
        None \<Rightarrow> (Inl (HttpError 404 ''Course not found''), d)
      | Some c \<Rightarrow>
          if instructor c \<noteq> uid u
            then (Inl (HttpError 403 ''Only instructors can create announcements''), d)
          else
            (case ForumPost_create e (newAnnouncement e u b) d of
               Inl err \<Rightarrow> (Inl err, d)
             | Inr d1 \<Rightarrow>
                 (case notifyStudents e c (ab_title b) d1 of
                    Inl err \<Rightarrow> (Inl err, d1)
                  | Inr d2 \<Rightarrow>
                      (case Notification_save e
                              (instructorAnnouncementNotification e c (ab_title b)) d2 of
                         Inl err \<Rightarrow> (Inl err, d2)
                       | Inr d3 \<Rightarrow> (Inr (newAnnouncement e u b), d3)))))"

section \<open>The forum router\<close>

text \<open>
  \<^verbatim>\<open>back/routes/forumRoutes.js\<close> registers its routes on one router, in this order. A
  request goes to the first route whose method and path pattern match; the handlers
  below end every request with a response or with \<^verbatim>\<open>next(error)\<close>, never with a plain
  \<^verbatim>\<open>next()\<close>, so no later route sees it. A path is matched segment by segment: a
  literal segment without regard to case, a parameter against any non-empty segment.
  The router runs \<^verbatim>\<open>authenticateUser\<close> before every route; the requests considered are
  those it lets through.
\<close>

datatype verb = GET | POST | PUT | DELETE

datatype seg = Lit string | Param string

datatype handler =
    H_getCourseDiscussions | H_getMyPosts | H_getAnnouncements | H_getPostById
  | H_createForumPost | H_updatePost | H_deletePost
  | H_addReply | H_updateReply | H_deleteReply
  | H_toggleLikePost | H_toggleLikeReply
  | H_createAnnouncement | H_pinPost | H_getAllPosts

record route =
  r_method :: verb
  r_path :: "seg list"
  r_roles :: "string list"
  r_handler :: handler

definition mkRoute :: "verb \<Rightarrow> seg list \<Rightarrow> string list \<Rightarrow> handler \<Rightarrow> route" where
  "mkRoute m p rs h = \<lparr>r_method = m, r_path = p, r_roles = rs, r_handler = h\<rparr>"

definition forumRouter :: "route list" where
  "forumRouter =
     [mkRoute GET [Lit ''course'', Param ''courseId''] [] H_getCourseDiscussions,
      mkRoute GET [Lit ''my-posts''] [] H_getMyPosts,
      mkRoute GET [Lit ''announcements''] [] H_getAnnouncements,
      mkRoute GET [Param ''postId''] [] H_getPostById,
      mkRoute POST [Lit ''create''] [] H_createForumPost,
      mkRoute PUT [Param ''postId''] [] H_updatePost,
      mkRoute DELETE [Param ''postId''] [] H_deletePost,
      mkRoute POST [Param ''postId'', Lit ''reply''] [] H_addReply,
      mkRoute PUT [Param ''postId'', Lit ''reply'', Param ''replyId''] [] H_updateReply,
      mkRoute DELETE [Param ''postId'', Lit ''reply'', Param ''replyId''] [] H_deleteReply,
      mkRoute POST [Param ''postId'', Lit ''like''] [] H_toggleLikePost,
      mkRoute POST [Param ''postId'', Lit ''reply'', Param ''replyId'', Lit ''like''] []
        H_toggleLikeReply,
      mkRoute POST [Lit ''announcement''] [''Instructor''] H_createAnnouncement,
      mkRoute PUT [Param ''postId'', Lit ''pin''] [''Instructor''] H_pinPost,
      mkRoute GET [Lit ''all''] [''Instructor''] H_getAllPosts]"

fun matchPath :: "seg list \<Rightarrow> string list \<Rightarrow> (string \<times> string) list option" where
  "matchPath [] [] = Some []"
| "matchPath (Lit l # ps) (s # ss) =
     (if toLowerCase l = toLowerCase s then matchPath ps ss else None)"
| "matchPath (Param n # ps) (s # ss) =
     (if s = [] then None
      else (case matchPath ps ss of None \<Rightarrow> None | Some bs \<Rightarrow> Some ((n, s) # bs)))"
| "matchPath ps ss = None"

fun dispatch ::
  "route list \<Rightarrow> verb \<Rightarrow> string list \<Rightarrow> (handler \<times> (string \<times> string) list) option" where
  "dispatch [] m path = None"
| "dispatch (r # rs) m path =
     (if r_method r = m then
        (case matchPath (r_path r) path of
           None \<Rightarrow> dispatch rs m path
         | Some params \<Rightarrow> Some (r_handler r, params))
      else dispatch rs m path)"

text \<open>The segments of a request path: the pieces between slashes, empty pieces dropped.\<close>

fun splitPath :: "string \<Rightarrow> string \<Rightarrow> string list" where
  "splitPath acc [] = (if acc = [] then [] else [acc])"
| "splitPath acc (c # cs) =
     (if c = CHR ''/'' then (if acc = [] then splitPath [] cs else acc # splitPath [] cs)
      else splitPath (acc @ [c]) cs)"

section \<open>Example data\<close>

definition env0 :: env where
  "env0 = \<lparr>now = 100, freshId = ''p9'', rejects = (\<lambda>op. False)\<rparr>"

definition envNotifDown :: env where
  "envNotifDown = \<lparr>now = 100, freshId = ''p9'', rejects = (\<lambda>op. op = OpNotificationSave)\<rparr>"

definition envPostDown :: env where
  "envPostDown = \<lparr>now = 100, freshId = ''p9'', rejects = (\<lambda>op. op = OpForumPostCreate)\<rparr>"

definition student1 :: user where
  "student1 = \<lparr>uid = ''u1'', username = ''asha'', role = ''Student''\<rparr>"


definition teacher1 :: user where
  "teacher1 = \<lparr>uid = ''t1'', username = ''ravi'', role = ''Instructor''\<rparr>"

definition course1 :: course where
  "course1 = \<lparr>cid = ''c1'', ctitle = ''Algebra'', instructor = ''t1'',
     enrolledStudents = [''u1'', ''u2'']\<rparr>"

definition reply1 :: reply where
  "reply1 = \<lparr>rid = ''r1'', rauthor = ''u2'', rcontent = ''A set with two operations'',
     rattachments = [], rlikes = [''u1'', ''u2''], rupdatedAt = 60\<rparr>"

definition post1 :: post where
  "post1 = \<lparr>pid = ''p1'', courseId = ''c1'', author = ''u1'', title = ''Rings'',
     content = ''What is a ring?'', category = ''Question'', tags = [''algebra''],
     attachments = [], likes = [''u1'', ''u2''], replies = [reply1], isPinned = False,
     isAnnouncement = False, createdAt = 50\<rparr>"

definition db0 :: db where
  "db0 = \<lparr>posts = [], courses = [course1], notifications = []\<rparr>"

definition db1 :: db where
  "db1 = \<lparr>posts = [post1], courses = [course1], notifications = []\<rparr>"

definition dbNoCourse :: db where
  "dbNoCourse = \<lparr>posts = [post1], courses = [], notifications = []\<rparr>"

definition question1 :: create_body where
  "question1 = \<lparr>b_courseId = ''c1'', b_title = ''Fields'', b_content = ''What is a field?'',
     b_category = ''Question'', b_tags = [], b_attachments = None\<rparr>"

definition general1 :: create_body where
  "general1 = \<lparr>b_courseId = ''c404'', b_title = ''Hello'', b_content = ''Welcome'',
     b_category = ''General'', b_tags = [], b_attachments = None\<rparr>"

definition general2 :: create_body where
  "general2 = \<lparr>b_courseId = ''c1'', b_title = ''Hello'', b_content = ''Welcome'',
     b_category = ''General'', b_tags = [], b_attachments = None\<rparr>"

definition announce1 :: create_body where
  "announce1 = \<lparr>b_courseId = ''c1'', b_title = ''Exam'', b_content = ''On Monday'',
     b_category = ''Announcement'', b_tags = [], b_attachments = None\<rparr>"


definition replyEdit1 :: reply_body where
  "replyEdit1 = \<lparr>rb_content = ''An abelian group with a monoid on top'',
     rb_attachments = None\<rparr>"



definition announcement1 :: announcement_body where
  "announcement1 = \<lparr>ab_courseId = ''c1'', ab_title = ''Exam'', ab_content = ''On Monday'',
     ab_attachments = None\<rparr>"







section \<open>Properties\<close>

subsection \<open>Creating a post and notifying the instructor\<close>

lemma validNotification_forumPost: "validNotification (forumPostNotification e u c t)"
  by (simp add: validNotification_def forumPostNotification_def notificationTypes_def dquote_def)

text \<open>
  C3. Creating a post and notifying the instructor are two separate writes, the post
  first. When the creation is rejected nothing is written, so no notification exists
  without its post; when the creation succeeds and the insertion of the notification is
  rejected, the handler ends with that error, the new post stays in the collection, and
  no notification has been added: no rollback takes place.
\<close>

theorem createForumPost_not_atomic:
  assumes "Course_findById d (b_courseId b) = Some c"
    and "isInstructorRole u \<longleftrightarrow> b_category b = ''Announcement''"
    and "instructor c \<noteq> uid u"
  shows "(rejects e OpForumPostCreate \<longrightarrow> snd (createForumPost e u b d) = d)
       \<and> (\<not> rejects e OpForumPostCreate \<and> rejects e OpNotificationSave \<longrightarrow>
            fst (createForumPost e u b d) = Inl (DbError ''notification.save rejected'')
          \<and> posts (snd (createForumPost e u b d)) = posts d @ [newForumPost e u b]
          \<and> notifications (snd (createForumPost e u b d)) = notifications d)"
  using assms
  by (auto simp: createForumPost_def createForumPost_store_def ForumPost_create_def
      Notification_save_def validNotification_forumPost)

lemma isInstructorRole_student1: "\<not> isInstructorRole student1"
  by (simp add: isInstructorRole_def student1_def toLowerCase_def lowerChar_def)

lemma isInstructorRole_teacher1: "isInstructorRole teacher1"
  by (simp add: isInstructorRole_def teacher1_def toLowerCase_def lowerChar_def)

lemma course1_found: "Course_findById db0 ''c1'' = Some course1"
  by (simp add: Course_findById_def db0_def course1_def)

text \<open>
  The state with the post and without the notification is reached from \<open>db0\<close> by a
  student's question while the notification write is rejected.
\<close>

theorem createForumPost_not_atomic_witness:
  "snd (createForumPost envPostDown student1 question1 db0) = db0
   \<and> fst (createForumPost envNotifDown student1 question1 db0)
       = Inl (DbError ''notification.save rejected'')
   \<and> posts (snd (createForumPost envNotifDown student1 question1 db0))
       = [newForumPost envNotifDown student1 question1]
   \<and> notifications (snd (createForumPost envNotifDown student1 question1 db0)) = []"
proof -
  have c: "Course_findById db0 (b_courseId question1) = Some course1"
    by (simp add: course1_found question1_def)
  have r: "isInstructorRole student1 \<longleftrightarrow> b_category question1 = ''Announcement''"
    by (simp add: isInstructorRole_student1 question1_def)
  have i: "instructor course1 \<noteq> uid student1"
    by (simp add: course1_def student1_def)
  show ?thesis
    using createForumPost_not_atomic [OF c r i, of envPostDown]
      createForumPost_not_atomic [OF c r i, of envNotifDown]
    by (simp add: envPostDown_def envNotifDown_def db0_def)
qed


subsection \<open>Who may post in which category\<close>

text \<open>
  C10, as stated, promises a 400 error for every request of an instructor with a category
  other than \<open>Announcement\<close>. The handler looks the course up first: for a course that
  does not exist the answer is 404, whatever the role and the category.
\<close>

theorem createForumPost_missing_course_is_404:
  "isInstructorRole teacher1 \<and> b_category general1 \<noteq> ''Announcement''
   \<and> createForumPost env0 teacher1 general1 db0
       = (Inl (HttpError 404 ''Course not found''), db0)"
  by (simp add: isInstructorRole_teacher1 general1_def createForumPost_def Course_findById_def
      db0_def course1_def)


lemma createForumPost_instructor_400:
  assumes "Course_findById d (b_courseId b) = Some c" "isInstructorRole u"
    "b_category b \<noteq> ''Announcement''"
  shows "errStatus (fst (createForumPost e u b d)) = Some 400 \<and> snd (createForumPost e u b d) = d"
  using assms by (simp add: createForumPost_def)

lemma createForumPost_student_400:
  assumes "Course_findById d (b_courseId b) = Some c" "\<not> isInstructorRole u"
    "b_category b = ''Announcement''"
  shows "errStatus (fst (createForumPost e u b d)) = Some 400 \<and> snd (createForumPost e u b d) = d"
  using assms by (simp add: createForumPost_def)

lemma createForumPost_store_Inr:
  assumes "createForumPost_store e u b c d = (Inr p, d')"
  shows "p = newForumPost e u b \<and> posts d' = posts d @ [p]"
  using assms
  by (auto simp: createForumPost_store_def ForumPost_create_def Notification_save_def
      split: if_splits sum.splits)

lemma createForumPost_Inr:
  assumes "createForumPost e u b d = (Inr p, d')"
  shows "p = newForumPost e u b \<and> posts d' = posts d @ [p]"
proof (cases "Course_findById d (b_courseId b)")
  case None
  with assms show ?thesis by (simp add: createForumPost_def)
next
  case (Some c)
  with assms have "createForumPost_store e u b c d = (Inr p, d')"
    by (simp add: createForumPost_def split: if_splits)
  then show ?thesis by (rule createForumPost_store_Inr)
qed

text \<open>
  C10, amended. For a request that names an existing course: an instructor (role compared
  without regard to case) with a category other than \<open>Announcement\<close>, and a
  non-instructor with category \<open>Announcement\<close>, are answered with a 400 error and the
  database is unchanged; and whenever the handler succeeds, the post it appended to the
  collection has \<open>isAnnouncement\<close> true exactly when its category is \<open>Announcement\<close>.
\<close>

theorem createForumPost_category_by_role:
  assumes "Course_findById d (b_courseId b) = Some c"
  shows "(isInstructorRole u \<and> b_category b \<noteq> ''Announcement'' \<longrightarrow>
            errStatus (fst (createForumPost e u b d)) = Some 400
          \<and> snd (createForumPost e u b d) = d)
       \<and> (\<not> isInstructorRole u \<and> b_category b = ''Announcement'' \<longrightarrow>
            errStatus (fst (createForumPost e u b d)) = Some 400
          \<and> snd (createForumPost e u b d) = d)
       \<and> (\<forall>p d'. createForumPost e u b d = (Inr p, d') \<longrightarrow>
            posts d' = posts d @ [p]
          \<and> (isAnnouncement p \<longleftrightarrow> category p = ''Announcement''))"
proof (intro conjI impI allI)
  fix p d' assume h: "createForumPost e u b d = (Inr p, d')"
  from createForumPost_Inr [OF h] show "posts d' = posts d @ [p]" by simp
  from createForumPost_Inr [OF h] show "isAnnouncement p \<longleftrightarrow> category p = ''Announcement''"
    by (simp add: newForumPost_def)
qed (use assms createForumPost_instructor_400 createForumPost_student_400 in blast)+



lemma announce1_created:
  "createForumPost env0 teacher1 announce1 db0
     = (Inr (newForumPost env0 teacher1 announce1),
        db0\<lparr>posts := [newForumPost env0 teacher1 announce1]\<rparr>)"
proof -
  have c1: "Course_findById db0 (b_courseId announce1) = Some course1"
    by (simp add: course1_found announce1_def)
  have a: "b_category announce1 = ''Announcement''" by (simp add: announce1_def)
  have i: "instructor course1 = uid teacher1" by (simp add: course1_def teacher1_def)
  have r: "\<not> rejects env0 OpForumPostCreate" by (simp add: env0_def)
  have p: "posts db0 = []" by (simp add: db0_def)
  show ?thesis
    by (simp add: createForumPost_def c1 isInstructorRole_teacher1 createForumPost_store_def
        ForumPost_create_def a i r p)
qed

theorem createForumPost_category_by_role_witness:
  "errStatus (fst (createForumPost env0 teacher1 general2 db0)) = Some 400
   \<and> snd (createForumPost env0 teacher1 general2 db0) = db0
   \<and> errStatus (fst (createForumPost env0 student1 announce1 db0)) = Some 400
   \<and> snd (createForumPost env0 student1 announce1 db0) = db0
   \<and> createForumPost env0 teacher1 announce1 db0
       = (Inr (newForumPost env0 teacher1 announce1),
          db0\<lparr>posts := [newForumPost env0 teacher1 announce1]\<rparr>)
   \<and> posts (db0\<lparr>posts := [newForumPost env0 teacher1 announce1]\<rparr>)
       = posts db0 @ [newForumPost env0 teacher1 announce1]
   \<and> (isAnnouncement (newForumPost env0 teacher1 announce1)
        \<longleftrightarrow> category (newForumPost env0 teacher1 announce1) = ''Announcement'')"
proof -
  have c2: "Course_findById db0 (b_courseId general2) = Some course1"
    by (simp add: course1_found general2_def)
  have c1: "Course_findById db0 (b_courseId announce1) = Some course1"
    by (simp add: course1_found announce1_def)
  have g: "b_category general2 \<noteq> ''Announcement''" by (simp add: general2_def)
  have a: "b_category announce1 = ''Announcement''" by (simp add: announce1_def)
  note t2 = createForumPost_category_by_role [OF c2, of teacher1 env0]
  note t1 = createForumPost_category_by_role [OF c1, of student1 env0]
  note t3 = createForumPost_category_by_role [OF c1, of teacher1 env0]
  from t2 g isInstructorRole_teacher1
  have A: "errStatus (fst (createForumPost env0 teacher1 general2 db0)) = Some 400
     \<and> snd (createForumPost env0 teacher1 general2 db0) = db0" by blast
  from t1 a isInstructorRole_student1
  have B: "errStatus (fst (createForumPost env0 student1 announce1 db0)) = Some 400
     \<and> snd (createForumPost env0 student1 announce1 db0) = db0" by blast
  from t3 announce1_created
  have C: "posts (db0\<lparr>posts := [newForumPost env0 teacher1 announce1]\<rparr>)
       = posts db0 @ [newForumPost env0 teacher1 announce1]
   \<and> (isAnnouncement (newForumPost env0 teacher1 announce1)
        \<longleftrightarrow> category (newForumPost env0 teacher1 announce1) = ''Announcement'')" by blast
  from A B C announce1_created show ?thesis by blast
qed

subsection \<open>Only the author may edit\<close>

lemma find_updateFirst:
  "find P xs = Some p \<Longrightarrow> P (f p) \<Longrightarrow> find P (updateFirst P f xs) = Some (f p)"
  by (induction xs) (auto split: if_splits)

lemma find_Some_holds: "find P xs = Some p \<Longrightarrow> P p"
  by (induction xs) (auto split: if_splits)








lemma post1_found: "ForumPost_findById db1 ''p1'' = Some post1"
  by (simp add: ForumPost_findById_def db1_def post1_def)

lemma reply1_found: "find (\<lambda>r. rid r = ''r1'') (replies post1) = Some reply1"
  by (simp add: post1_def reply1_def)


subsection \<open>The course of a post is used unchecked\<close>

text \<open>
  C2 promises a 404 answer wherever a looked-up document does not exist. For a post whose
  course is gone, \<^verbatim>\<open>getPostById\<close> and \<^verbatim>\<open>addReply\<close> read \<^verbatim>\<open>course.enrolledStudents\<close>, and
  \<^verbatim>\<open>deletePost\<close> (for a requester who is not the author) reads \<^verbatim>\<open>course.instructor\<close>, of
  \<^verbatim>\<open>null\<close>: the request ends with a thrown \<open>TypeError\<close>, not with a 404 error.
\<close>

theorem course_of_post_not_checked:
  "getPostById student1 ''p1'' dbNoCourse
     = Inl (TypeError ''Cannot read properties of null (reading enrolledStudents)'')
   \<and> addReply env0 student1 ''p1'' replyEdit1 dbNoCourse
     = (Inl (TypeError ''Cannot read properties of null (reading enrolledStudents)''), dbNoCourse)
   \<and> deletePost env0 teacher1 ''p1'' dbNoCourse
     = (Inl (TypeError ''Cannot read properties of null (reading instructor)''), dbNoCourse)
   \<and> errStatus (getPostById student1 ''p1'' dbNoCourse) \<noteq> Some 404"
proof -
  have p: "ForumPost_findById dbNoCourse ''p1'' = Some post1"
    by (simp add: ForumPost_findById_def dbNoCourse_def post1_def)
  have c: "Course_findById dbNoCourse (courseId post1) = None"
    by (simp add: Course_findById_def dbNoCourse_def)
  have a: "author post1 \<noteq> uid teacher1" by (simp add: post1_def teacher1_def)
  show ?thesis
    by (simp add: getPostById_def addReply_def deletePost_def p c a)
qed

subsection \<open>What an update of a post touches\<close>





subsection \<open>Notifications of an announcement\<close>

lemma validNotification_student:
  "validNotification (studentAnnouncementNotification e c t s)"
  by (simp add: validNotification_def studentAnnouncementNotification_def notificationTypes_def)

lemma validNotification_instructor:
  "validNotification (instructorAnnouncementNotification e c t)"
  by (simp add: validNotification_def instructorAnnouncementNotification_def
      notificationTypes_def)

lemma notifyStudents_Inr:
  assumes "notifyStudents e c t d = Inr d'"
  shows "d' = d\<lparr>notifications := notifications d
            @ map (studentAnnouncementNotification e c t) (enrolledStudents c)\<rparr>"
  using assms
  by (cases "enrolledStudents c")
    (auto simp: notifyStudents_def Notification_insertMany_def split: if_splits)

lemma createAnnouncement_Inr:
  assumes "createAnnouncement e u b d = (Inr a, d')"
  shows "\<exists>c. Course_findById d (ab_courseId b) = Some c \<and> instructor c = uid u
     \<and> notifications d' = notifications d
          @ map (studentAnnouncementNotification e c (ab_title b)) (enrolledStudents c)
          @ [instructorAnnouncementNotification e c (ab_title b)]"
proof (cases "Course_findById d (ab_courseId b)")
  case None
  with assms show ?thesis by (simp add: createAnnouncement_def)
next
  case (Some c)
  with assms have i: "instructor c = uid u"
    by (simp add: createAnnouncement_def split: if_splits)
  from assms Some i obtain d1 where d1: "ForumPost_create e (newAnnouncement e u b) d = Inr d1"
    by (cases "ForumPost_create e (newAnnouncement e u b) d")
      (simp_all add: createAnnouncement_def)
  from assms Some i d1 obtain d2 where d2: "notifyStudents e c (ab_title b) d1 = Inr d2"
    by (cases "notifyStudents e c (ab_title b) d1") (simp_all add: createAnnouncement_def)
  from assms Some i d1 d2
  have d3: "Notification_save e (instructorAnnouncementNotification e c (ab_title b)) d2 = Inr d'"
    by (cases "Notification_save e (instructorAnnouncementNotification e c (ab_title b)) d2")
      (simp_all add: createAnnouncement_def)
  from d1 have "notifications d1 = notifications d"
    by (auto simp: ForumPost_create_def split: if_splits)
  moreover from notifyStudents_Inr [OF d2]
  have "notifications d2 = notifications d1
      @ map (studentAnnouncementNotification e c (ab_title b)) (enrolledStudents c)" by simp
  moreover from d3 have "notifications d' = notifications d2
      @ [instructorAnnouncementNotification e c (ab_title b)]"
    by (auto simp: Notification_save_def split: if_splits)
  ultimately show ?thesis using Some i by simp
qed

text \<open>
  C7. After a successful \<^verbatim>\<open>createAnnouncement\<close> the requester is the instructor of the
  course, and the notifications are the former ones followed by exactly one per enrolled
  student, addressed to the students in their order, and then one addressed to the
  instructor: \<open>n + 1\<close> new documents for \<open>n\<close> enrolled students, each of type
  \<open>Announcement\<close>, a value of the schema's enumeration, and each unread.
\<close>

theorem createAnnouncement_notifications:
  assumes "createAnnouncement e u b d = (Inr a, d')"
  shows "\<exists>c ns. Course_findById d (ab_courseId b) = Some c \<and> instructor c = uid u
     \<and> notifications d' = notifications d @ ns
     \<and> length ns = length (enrolledStudents c) + 1
     \<and> map userId ns = enrolledStudents c @ [instructor c]
     \<and> list_all (\<lambda>n. ntype n = ''Announcement'' \<and> \<not> isRead n) ns
     \<and> ''Announcement'' \<in> set notificationTypes"
proof -
  from createAnnouncement_Inr [OF assms] obtain c where c:
    "Course_findById d (ab_courseId b) = Some c" "instructor c = uid u"
    "notifications d' = notifications d
          @ map (studentAnnouncementNotification e c (ab_title b)) (enrolledStudents c)
          @ [instructorAnnouncementNotification e c (ab_title b)]"
    by blast
  let ?ns = "map (studentAnnouncementNotification e c (ab_title b)) (enrolledStudents c)
          @ [instructorAnnouncementNotification e c (ab_title b)]"
  have 1: "length ?ns = length (enrolledStudents c) + 1" by simp
  have 2: "map userId ?ns = enrolledStudents c @ [instructor c]"
    by (simp add: studentAnnouncementNotification_def instructorAnnouncementNotification_def
        comp_def)
  have 3: "list_all (\<lambda>n. ntype n = ''Announcement'' \<and> \<not> isRead n) ?ns"
    by (simp add: list_all_iff studentAnnouncementNotification_def
        instructorAnnouncementNotification_def)
  have 4: "''Announcement'' \<in> set notificationTypes"
    by (simp add: notificationTypes_def)
  from c 1 2 3 4 show ?thesis by blast
qed

theorem createAnnouncement_notifications_witness:
  "createAnnouncement env0 teacher1 announcement1 db0
     = (Inr (newAnnouncement env0 teacher1 announcement1),
        \<lparr>posts = [newAnnouncement env0 teacher1 announcement1], courses = [course1],
         notifications =
           [studentAnnouncementNotification env0 course1 ''Exam'' ''u1'',
            studentAnnouncementNotification env0 course1 ''Exam'' ''u2'',
            instructorAnnouncementNotification env0 course1 ''Exam'']\<rparr>)
   \<and> (\<exists>ns. [studentAnnouncementNotification env0 course1 ''Exam'' ''u1'',
            studentAnnouncementNotification env0 course1 ''Exam'' ''u2'',
            instructorAnnouncementNotification env0 course1 ''Exam''] = notifications db0 @ ns
         \<and> length ns = length (enrolledStudents course1) + 1
         \<and> map userId ns = [''u1'', ''u2'', ''t1''])"
proof -
  have c: "Course_findById db0 (ab_courseId announcement1) = Some course1"
    by (simp add: course1_found announcement1_def)
  have i: "instructor course1 = uid teacher1" by (simp add: course1_def teacher1_def)
  have r: "\<not> rejects env0 OpForumPostCreate" "\<not> rejects env0 OpNotificationInsertMany"
    "\<not> rejects env0 OpNotificationSave"
    by (simp_all add: env0_def)
  have s: "enrolledStudents course1 = [''u1'', ''u2'']" by (simp add: course1_def)
  have t: "ab_title announcement1 = ''Exam''" by (simp add: announcement1_def)
  have h: "createAnnouncement env0 teacher1 announcement1 db0
     = (Inr (newAnnouncement env0 teacher1 announcement1),
        \<lparr>posts = [newAnnouncement env0 teacher1 announcement1], courses = [course1],
         notifications =
           [studentAnnouncementNotification env0 course1 ''Exam'' ''u1'',
            studentAnnouncementNotification env0 course1 ''Exam'' ''u2'',
            instructorAnnouncementNotification env0 course1 ''Exam'']\<rparr>)"
    by (simp add: createAnnouncement_def c i ForumPost_create_def r notifyStudents_def s t
        Notification_insertMany_def Notification_save_def validNotification_student
        validNotification_instructor)
      (simp add: db0_def)
  from createAnnouncement_notifications [OF h] c i s
  have "\<exists>ns. [studentAnnouncementNotification env0 course1 ''Exam'' ''u1'',
            studentAnnouncementNotification env0 course1 ''Exam'' ''u2'',
            instructorAnnouncementNotification env0 course1 ''Exam''] = notifications db0 @ ns
         \<and> length ns = length (enrolledStudents course1) + 1
         \<and> map userId ns = [''u1'', ''u2'', ''t1'']"
    by (auto simp: course1_def)
  with h show ?thesis by blast
qed

subsection \<open>Routing\<close>

lemma matchPath_nil: "matchPath [] ss = (if ss = [] then Some [] else None)"
  by (cases ss) simp_all

lemma dispatch_handler_in:
  "dispatch rs m path = Some (h, ps) \<Longrightarrow>
     \<exists>r\<in>set rs. r_handler r = h \<and> r_method r = m \<and> matchPath (r_path r) path = Some ps"
  by (induction rs) (auto split: if_splits option.splits)

lemma matchPath_all:
  assumes "matchPath [Lit ''all''] path = Some ps"
  shows "\<exists>s. path = [s] \<and> s \<noteq> []"
proof (cases path)
  case Nil
  with assms show ?thesis by simp
next
  case (Cons s ss)
  with assms have "toLowerCase ''all'' = toLowerCase s" "ss = []"
    by (simp_all add: matchPath_nil split: if_splits)
  then have "s \<noteq> []" "ss = []" by (auto simp: toLowerCase_def)
  with Cons show ?thesis by simp
qed

lemma single_GET_segment:
  assumes "s \<noteq> []"
  shows "\<exists>h ps. dispatch forumRouter GET [s] = Some (h, ps) \<and> h \<noteq> H_getAllPosts"
  using assms
  by (simp add: forumRouter_def mkRoute_def matchPath_nil)

lemma getAllPosts_route:
  assumes "r \<in> set forumRouter" "r_handler r = H_getAllPosts"
  shows "r_method r = GET \<and> r_path r = [Lit ''all'']"
  using assms by (auto simp: forumRouter_def mkRoute_def)

lemma getAllPosts_unreachable:
  "dispatch forumRouter m path \<noteq> Some (H_getAllPosts, ps)"
proof
  assume a: "dispatch forumRouter m path = Some (H_getAllPosts, ps)"
  from dispatch_handler_in [OF a] obtain r where r: "r \<in> set forumRouter"
    "r_handler r = H_getAllPosts" "r_method r = m" "matchPath (r_path r) path = Some ps"
    by blast
  from getAllPosts_route [OF r(1,2)] r(3,4)
  have m: "m = GET" and "matchPath [Lit ''all''] path = Some ps" by simp_all
  from matchPath_all [OF this(2)] obtain s where s: "path = [s]" "s \<noteq> []" by blast
  from single_GET_segment [OF s(2)] a m s(1) show False by auto
qed

text \<open>
  C8. The route \<^verbatim>\<open>/:postId\<close> is registered before \<^verbatim>\<open>/all\<close>. A \<^verbatim>\<open>GET\<close> of \<^verbatim>\<open>/all\<close> goes
  to \<^verbatim>\<open>getPostById\<close> with \<open>postId\<close> bound to the string \<open>all\<close>, and no request at all, of
  any method and path, is dispatched to \<^verbatim>\<open>getAllPosts\<close>.
\<close>

theorem all_route_shadowed:
  "dispatch forumRouter GET (splitPath [] ''/all'') = Some (H_getPostById, [(''postId'', ''all'')])
   \<and> (\<forall>m path params. dispatch forumRouter m path \<noteq> Some (H_getAllPosts, params))"
proof -
  have "splitPath [] ''/all'' = [''all'']" by simp
  moreover have "dispatch forumRouter GET [''all''] = Some (H_getPostById, [(''postId'', ''all'')])"
    by (simp add: forumRouter_def mkRoute_def toLowerCase_def lowerChar_def)
  ultimately show ?thesis using getAllPosts_unreachable by simp
qed


theorem all_route_shadowed_witness:
  "dispatch forumRouter GET [''all''] \<noteq> Some (H_getAllPosts, [])
   \<and> dispatch forumRouter GET [''ALL''] \<noteq> Some (H_getAllPosts, [])"
  using all_route_shadowed by blast

subsection \<open>Toggling a like\<close>

lemma indexOf_ge: "- 1 \<le> indexOf xs x"
  by (induction xs) (auto simp: Let_def)

lemma indexOf_absent: "indexOf xs x = - 1 \<longleftrightarrow> x \<notin> set xs"
proof (induction xs)
  case Nil
  show ?case by simp
next
  case (Cons y ys)
  from indexOf_ge [of ys x] have "indexOf ys x + 1 \<noteq> - 1" by simp
  with Cons show ?case by (auto simp: Let_def)
qed

lemma splice1_indexOf: "x \<in> set xs \<Longrightarrow> splice1 (indexOf xs x) xs = remove1 x xs"
proof (induction xs)
  case Nil
  then show ?case by simp
next
  case (Cons y ys)
  show ?case
  proof (cases "y = x")
    case True
    then show ?thesis by (simp add: splice1_def)
  next
    case False
    with Cons.prems have in_ys: "x \<in> set ys" by simp
    with indexOf_absent [of ys x] indexOf_ge [of ys x] have ge: "0 \<le> indexOf ys x" by simp
    from Cons.IH [OF in_ys] have ih: "take (nat (indexOf ys x)) ys @ drop (nat (indexOf ys x) + 1) ys = remove1 x ys"
      by (simp add: splice1_def)
    from ge have n: "nat (indexOf ys x + 1) = Suc (nat (indexOf ys x))" by simp
    from False in_ys indexOf_absent [of ys x] ih show ?thesis
      by (simp add: splice1_def Let_def n)
  qed
qed

lemma toggleLike_eq:
  "toggleLike i ls = (if i \<in> set ls then remove1 i ls else ls @ [i])"
  using indexOf_absent [of ls i] by (simp add: toggleLike_def Let_def splice1_indexOf)

lemma remove1_append_absent: "i \<notin> set ls \<Longrightarrow> remove1 i (ls @ [i]) = ls"
  by (simp add: remove1_append)

lemma toggleLike_twice:
  "toggleLike i (toggleLike i ls) =
     (if i \<in> set ls then (if i \<in> set (remove1 i ls) then remove1 i (remove1 i ls)
                            else remove1 i ls @ [i])
      else ls)"
  by (simp add: toggleLike_eq remove1_append_absent)

lemma toggleLike_twice_distinct:
  "distinct ls \<Longrightarrow> toggleLike i (toggleLike i ls) = (if i \<in> set ls then remove1 i ls @ [i] else ls)"
  by (simp add: toggleLike_twice)

lemma length_toggleLike:
  "length (toggleLike i ls) = (if i \<in> set ls then length ls - 1 else length ls + 1)"
  by (simp add: toggleLike_eq length_remove1)


lemma toggleLikePost_ok:
  assumes "ForumPost_findById d postId = Some p" "\<not> rejects e OpPostSave"
  shows "fst (toggleLikePost e u postId d)
           = Inr \<lparr>lr_likes = length (toggleLike (uid u) (likes p)),
                  lr_isLiked = (uid u \<notin> set (likes p))\<rparr>"
    and "ForumPost_findById (snd (toggleLikePost e u postId d)) postId
           = Some (p\<lparr>likes := toggleLike (uid u) (likes p)\<rparr>)"
proof -
  let ?p' = "p\<lparr>likes := toggleLike (uid u) (likes p)\<rparr>"
  from assms(1) have f: "find (\<lambda>q. pid q = postId) (posts d) = Some p"
    by (simp add: ForumPost_findById_def)
  from find_Some_holds [OF f] have pp: "pid p = postId" .
  from assms pp show "fst (toggleLikePost e u postId d)
           = Inr \<lparr>lr_likes = length (toggleLike (uid u) (likes p)),
                  lr_isLiked = (uid u \<notin> set (likes p))\<rparr>"
    by (simp add: toggleLikePost_def post_save_def indexOf_absent)
  from f pp have "find (\<lambda>q. pid q = postId) (updateFirst (\<lambda>q. pid q = postId) (\<lambda>q. ?p') (posts d))
      = Some ?p'"
    by (intro find_updateFirst) simp_all
  with assms pp show "ForumPost_findById (snd (toggleLikePost e u postId d)) postId = Some ?p'"
    by (simp add: toggleLikePost_def post_save_def ForumPost_findById_def)
qed

lemma toggleLikePost_likes:
  assumes "ForumPost_findById d postId = Some p" "\<not> rejects e OpPostSave"
  shows "postLikes (snd (toggleLikePost e u postId d)) postId = Some (toggleLike (uid u) (likes p))"
  using toggleLikePost_ok(2) [OF assms, where u = u] by (simp add: postLikes_def)

lemma toggleLikePost_twice:
  assumes "ForumPost_findById d postId = Some p" "\<not> rejects e OpPostSave"
  shows "postLikes (snd (toggleLikePost e u postId (snd (toggleLikePost e u postId d)))) postId
           = Some (toggleLike (uid u) (toggleLike (uid u) (likes p)))"
  using toggleLikePost_likes [OF toggleLikePost_ok(2) [OF assms, where u = u] assms(2), where u = u]
  by simp

lemma toggleLikeReply_ok:
  assumes "ForumPost_findById d postId = Some p"
    "find (\<lambda>r. rid r = replyId) (replies p) = Some r" "\<not> rejects e OpPostSave"
  shows "fst (toggleLikeReply e u postId replyId d)
           = Inr \<lparr>lr_likes = length (toggleLike (uid u) (rlikes r)),
                  lr_isLiked = (uid u \<notin> set (rlikes r))\<rparr>"
    and "\<exists>p'. ForumPost_findById (snd (toggleLikeReply e u postId replyId d)) postId = Some p'
           \<and> find (\<lambda>r. rid r = replyId) (replies p')
               = Some (r\<lparr>rlikes := toggleLike (uid u) (rlikes r)\<rparr>)"
proof -
  let ?f = "\<lambda>r. r\<lparr>rlikes := toggleLike (uid u) (rlikes r)\<rparr>"
  let ?p' = "p\<lparr>replies := updateFirst (\<lambda>r. rid r = replyId) ?f (replies p)\<rparr>"
  from assms(1) have f: "find (\<lambda>q. pid q = postId) (posts d) = Some p"
    by (simp add: ForumPost_findById_def)
  from find_Some_holds [OF f] have pp: "pid p = postId" .
  from find_Some_holds [OF assms(2)] have "rid (?f r) = replyId" by simp
  with assms(2) have r': "find (\<lambda>r. rid r = replyId) (replies ?p') = Some (?f r)"
    by (simp add: find_updateFirst)
  from assms pp show "fst (toggleLikeReply e u postId replyId d)
           = Inr \<lparr>lr_likes = length (toggleLike (uid u) (rlikes r)),
                  lr_isLiked = (uid u \<notin> set (rlikes r))\<rparr>"
    by (simp add: toggleLikeReply_def post_save_def indexOf_absent)
  from f pp have "find (\<lambda>q. pid q = postId) (updateFirst (\<lambda>q. pid q = postId) (\<lambda>q. ?p') (posts d))
      = Some ?p'"
    by (intro find_updateFirst) simp_all
  with assms pp r'
  show "\<exists>p'. ForumPost_findById (snd (toggleLikeReply e u postId replyId d)) postId = Some p'
           \<and> find (\<lambda>r. rid r = replyId) (replies p') = Some (?f r)"
    by (simp add: toggleLikeReply_def post_save_def ForumPost_findById_def)
qed

lemma toggleLikeReply_likes:
  assumes "ForumPost_findById d postId = Some p"
    "find (\<lambda>r. rid r = replyId) (replies p) = Some r" "\<not> rejects e OpPostSave"
  shows "replyLikes (snd (toggleLikeReply e u postId replyId d)) postId replyId
           = Some (toggleLike (uid u) (rlikes r))"
  using toggleLikeReply_ok(2) [OF assms, where u = u] by (auto simp: replyLikes_def)

lemma toggleLikeReply_twice:
  assumes "ForumPost_findById d postId = Some p"
    "find (\<lambda>r. rid r = replyId) (replies p) = Some r" "\<not> rejects e OpPostSave"
  shows "replyLikes (snd (toggleLikeReply e u postId replyId
                            (snd (toggleLikeReply e u postId replyId d)))) postId replyId
           = Some (toggleLike (uid u) (toggleLike (uid u) (rlikes r)))"
proof -
  from toggleLikeReply_ok(2) [OF assms, where u = u] obtain p' where
    p': "ForumPost_findById (snd (toggleLikeReply e u postId replyId d)) postId = Some p'"
      "find (\<lambda>r. rid r = replyId) (replies p')
         = Some (r\<lparr>rlikes := toggleLike (uid u) (rlikes r)\<rparr>)"
    by blast
  from toggleLikeReply_likes [OF p' assms(3), where u = u] show ?thesis by simp
qed

text \<open>
  C9, amended. For an existing post (or reply) and a save that is not rejected: a toggle by
  a user whose id is not in the likes list appends the id and reports \<open>isLiked\<close> true with
  the count one higher; a toggle by a user whose id is in the list removes the first
  occurrence of the id and reports \<open>isLiked\<close> false with the count one lower. Two toggles
  in succession by the same user give back the original list when the id was absent; when
  it was present, in a list without duplicates, they give the list with that id moved to
  the end: the same members, not in general the same list.
\<close>

theorem toggle_like:
  assumes "\<not> rejects e OpPostSave"
  shows
  "(ForumPost_findById d postId = Some p \<longrightarrow>
      fst (toggleLikePost e u postId d)
        = Inr \<lparr>lr_likes = (if uid u \<in> set (likes p) then length (likes p) - 1
                            else length (likes p) + 1),
               lr_isLiked = (uid u \<notin> set (likes p))\<rparr>
    \<and> postLikes (snd (toggleLikePost e u postId d)) postId
        = Some (if uid u \<in> set (likes p) then remove1 (uid u) (likes p)
                else likes p @ [uid u])
    \<and> (uid u \<notin> set (likes p) \<longrightarrow>
         postLikes (snd (toggleLikePost e u postId (snd (toggleLikePost e u postId d)))) postId
           = Some (likes p))
    \<and> (uid u \<in> set (likes p) \<and> distinct (likes p) \<longrightarrow>
         postLikes (snd (toggleLikePost e u postId (snd (toggleLikePost e u postId d)))) postId
           = Some (remove1 (uid u) (likes p) @ [uid u])))
   \<and> (ForumPost_findById d postId = Some p
        \<and> find (\<lambda>r. rid r = replyId) (replies p) = Some r \<longrightarrow>
      fst (toggleLikeReply e u postId replyId d)
        = Inr \<lparr>lr_likes = (if uid u \<in> set (rlikes r) then length (rlikes r) - 1
                            else length (rlikes r) + 1),
               lr_isLiked = (uid u \<notin> set (rlikes r))\<rparr>
    \<and> replyLikes (snd (toggleLikeReply e u postId replyId d)) postId replyId
        = Some (if uid u \<in> set (rlikes r) then remove1 (uid u) (rlikes r)
                else rlikes r @ [uid u])
    \<and> (uid u \<notin> set (rlikes r) \<longrightarrow>
         replyLikes (snd (toggleLikeReply e u postId replyId
                            (snd (toggleLikeReply e u postId replyId d)))) postId replyId
           = Some (rlikes r))
    \<and> (uid u \<in> set (rlikes r) \<and> distinct (rlikes r) \<longrightarrow>
         replyLikes (snd (toggleLikeReply e u postId replyId
                            (snd (toggleLikeReply e u postId replyId d)))) postId replyId
           = Some (remove1 (uid u) (rlikes r) @ [uid u])))"
proof (intro conjI impI)
  assume p: "ForumPost_findById d postId = Some p"
  from toggleLikePost_ok(1) [OF p assms, where u = u]
  show "fst (toggleLikePost e u postId d)
        = Inr \<lparr>lr_likes = (if uid u \<in> set (likes p) then length (likes p) - 1
                            else length (likes p) + 1),
               lr_isLiked = (uid u \<notin> set (likes p))\<rparr>"
    by (simp add: length_toggleLike)
  from toggleLikePost_likes [OF p assms, where u = u]
  show "postLikes (snd (toggleLikePost e u postId d)) postId
        = Some (if uid u \<in> set (likes p) then remove1 (uid u) (likes p)
                else likes p @ [uid u])"
    by (simp add: toggleLike_eq)
  note t = toggleLikePost_twice [OF p assms, where u = u]
  { assume "uid u \<notin> set (likes p)"
    with t show "postLikes (snd (toggleLikePost e u postId (snd (toggleLikePost e u postId d)))) postId
           = Some (likes p)"
      by (simp add: toggleLike_twice) }
  { assume "uid u \<in> set (likes p) \<and> distinct (likes p)"
    with t show "postLikes (snd (toggleLikePost e u postId (snd (toggleLikePost e u postId d)))) postId
           = Some (remove1 (uid u) (likes p) @ [uid u])"
      by (simp add: toggleLike_twice_distinct) }
next
  assume "ForumPost_findById d postId = Some p
        \<and> find (\<lambda>r. rid r = replyId) (replies p) = Some r"
  then have p: "ForumPost_findById d postId = Some p"
    and r: "find (\<lambda>r. rid r = replyId) (replies p) = Some r" by simp_all
  from toggleLikeReply_ok(1) [OF p r assms, where u = u]
  show "fst (toggleLikeReply e u postId replyId d)
        = Inr \<lparr>lr_likes = (if uid u \<in> set (rlikes r) then length (rlikes r) - 1
                            else length (rlikes r) + 1),
               lr_isLiked = (uid u \<notin> set (rlikes r))\<rparr>"
    by (simp add: length_toggleLike)
  from toggleLikeReply_likes [OF p r assms, where u = u]
  show "replyLikes (snd (toggleLikeReply e u postId replyId d)) postId replyId
        = Some (if uid u \<in> set (rlikes r) then remove1 (uid u) (rlikes r)
                else rlikes r @ [uid u])"
    by (simp add: toggleLike_eq)
  note t = toggleLikeReply_twice [OF p r assms, where u = u]
  { assume "uid u \<notin> set (rlikes r)"
    with t show "replyLikes (snd (toggleLikeReply e u postId replyId
                            (snd (toggleLikeReply e u postId replyId d)))) postId replyId
           = Some (rlikes r)"
      by (simp add: toggleLike_twice) }
  { assume "uid u \<in> set (rlikes r) \<and> distinct (rlikes r)"
    with t show "replyLikes (snd (toggleLikeReply e u postId replyId
                            (snd (toggleLikeReply e u postId replyId d)))) postId replyId
           = Some (remove1 (uid u) (rlikes r) @ [uid u])"
      by (simp add: toggleLike_twice_distinct) }
qed

text \<open>
  C9, as stated, has two toggles restore the likes list. The second toggle appends at the
  end what the first one removed from the front: \<open>[u1, u2]\<close> becomes \<open>[u2, u1]\<close>.
\<close>

theorem toggle_like_twice_reorders:
  "postLikes db1 ''p1'' = Some [''u1'', ''u2'']
   \<and> postLikes (snd (toggleLikePost env0 student1 ''p1''
                       (snd (toggleLikePost env0 student1 ''p1'' db1)))) ''p1''
       = Some [''u2'', ''u1'']
   \<and> replyLikes db1 ''p1'' ''r1'' = Some [''u1'', ''u2'']
   \<and> replyLikes (snd (toggleLikeReply env0 student1 ''p1'' ''r1''
                       (snd (toggleLikeReply env0 student1 ''p1'' ''r1'' db1)))) ''p1'' ''r1''
       = Some [''u2'', ''u1'']"
proof -
  have e: "\<not> rejects env0 OpPostSave" by (simp add: env0_def)
  have l: "likes post1 = [''u1'', ''u2'']" "rlikes reply1 = [''u1'', ''u2'']"
    "uid student1 = ''u1''"
    by (simp_all add: post1_def reply1_def student1_def)
  have t: "toggleLike ''u1'' (toggleLike ''u1'' [''u1'', ''u2'']) = [''u2'', ''u1'']"
    by (simp add: toggleLike_def splice1_def)
  from toggleLikePost_twice [OF post1_found e, where u = student1]
    toggleLikeReply_twice [OF post1_found reply1_found e, where u = student1] l t
  show ?thesis
    by (simp add: postLikes_def replyLikes_def post1_found reply1_found)
qed

theorem toggle_like_witness:
  "fst (toggleLikePost env0 student1 ''p1'' db1) = Inr \<lparr>lr_likes = 1, lr_isLiked = False\<rparr>
   \<and> postLikes (snd (toggleLikePost env0 student1 ''p1'' db1)) ''p1'' = Some [''u2'']
   \<and> fst (toggleLikePost env0 teacher1 ''p1'' db1) = Inr \<lparr>lr_likes = 3, lr_isLiked = True\<rparr>
   \<and> postLikes (snd (toggleLikePost env0 teacher1 ''p1''
                       (snd (toggleLikePost env0 teacher1 ''p1'' db1)))) ''p1''
       = Some [''u1'', ''u2'']
   \<and> fst (toggleLikeReply env0 student1 ''p1'' ''r1'' db1)
       = Inr \<lparr>lr_likes = 1, lr_isLiked = False\<rparr>
   \<and> replyLikes (snd (toggleLikeReply env0 teacher1 ''p1'' ''r1''
                       (snd (toggleLikeReply env0 teacher1 ''p1'' ''r1'' db1)))) ''p1'' ''r1''
       = Some [''u1'', ''u2'']"
proof -
  have e: "\<not> rejects env0 OpPostSave" by (simp add: env0_def)
  have l: "likes post1 = [''u1'', ''u2'']" "rlikes reply1 = [''u1'', ''u2'']"
    "uid student1 = ''u1''" "uid teacher1 = ''t1''"
    by (simp_all add: post1_def reply1_def student1_def teacher1_def)
  from toggle_like [OF e, where d = db1 and postId = "''p1''" and p = post1 and u = student1
      and replyId = "''r1''" and r = reply1]
    toggle_like [OF e, where d = db1 and postId = "''p1''" and p = post1 and u = teacher1
      and replyId = "''r1''" and r = reply1]
    post1_found reply1_found l
  show ?thesis by simp
qed

subsection \<open>Paging\<close>

















subsection \<open>Search\<close>







end
